theory Spec2Isabelle
  imports Complex_Main
begin

section \<open>Python values and exceptions\<close>

text \<open>
  A Python \<open>float\<close>: a finite one is represented by the real number it denotes; the
  two infinities and NaN are values of their own.
\<close>

datatype pyfloat = Finite real | PosInf | NegInf | NaN

text \<open>
  The values that reach the fields of a \<open>VideoGameModel\<close> and the parameters of a
  statement. A \<open>str\<close> is a \<open>string\<close> (one that UTF-8 can encode: a \<open>str\<close> with a
  lone surrogate has no counterpart here). \<open>bool\<close> is kept apart from \<open>int\<close> because
  it is a subclass of it.
\<close>

datatype pyval = PyNone | PyBool bool | PyInt int | PyFloat pyfloat | PyStr string

text \<open>The exception classes raised by \<open>main.py\<close> and by the \<open>sqlite3\<close> calls it makes.\<close>

datatype error =
    ValueError
  | TypeError
  | OverflowError
  | IntegrityError
  | OperationalError
  | ProgrammingError

text \<open>\<open>isinstance(value, int)\<close>: true of an \<open>int\<close> and of a \<open>bool\<close>.\<close>

fun isinstance_int :: "pyval \<Rightarrow> bool" where
  "isinstance_int (PyInt i) = True"
| "isinstance_int (PyBool b) = True"
| "isinstance_int v = False"

section \<open>The entity: \<open>VideoGameModel\<close>\<close>

text \<open>
  The dataclass of \<open>main.py\<close>. The field \<open>_id\<close> is called \<open>priv_id\<close> here. The name
  is a \<open>str\<close> as annotated; \<open>rating\<close> and \<open>_id\<close> range over all values, since the
  dataclass checks no annotation at run time.
\<close>

record VideoGameModel =
  name :: string
  rating :: pyval
  priv_id :: pyval

text \<open>
  The generated constructor \<open>VideoGameModel(name, rating, _id)\<close> stores its arguments
  as they are; \<open>_id\<close> defaults to \<open>None\<close>.
\<close>

definition VideoGameModel_init :: "string \<Rightarrow> pyval \<Rightarrow> pyval \<Rightarrow> VideoGameModel" where
  "VideoGameModel_init n r i = \<lparr>name = n, rating = r, priv_id = i\<rparr>"

definition VideoGameModel_new :: "string \<Rightarrow> pyval \<Rightarrow> VideoGameModel" where
  "VideoGameModel_new n r = VideoGameModel_init n r PyNone"

text \<open>The property \<open>id\<close>: its getter and its setter (lines 37 to 47).\<close>

definition id_getter :: "VideoGameModel \<Rightarrow> pyval" where
  "id_getter self = priv_id self"

definition id_setter :: "VideoGameModel \<Rightarrow> pyval \<Rightarrow> error + VideoGameModel" where
  "id_setter self v =
     (if \<not> isinstance_int v then Inl ValueError else Inr (self\<lparr>priv_id := v\<rparr>))"

section \<open>The store: one \<open>sqlite3\<close> connection\<close>

text \<open>
  The five functions of \<open>main.py\<close> each send one SQL statement to a \<open>sqlite3\<close>
  connection. The statements are part of the source; what the engine does with them is
  written out here, for the connection that line 147 opens: the default transaction
  control of the \<open>sqlite3\<close> module, under which a transaction is begun before an
  \<open>INSERT\<close> or a \<open>DELETE\<close> when none is open, and nothing is committed unless the
  program calls \<open>commit\<close>, which \<open>main.py\<close> never does.
\<close>

datatype sqlval = SqlNull | SqlInteger int | SqlReal pyfloat | SqlText string

text \<open>
  Binding a Python value to a \<open>?\<close> of a statement. An \<open>int\<close> outside the signed
  64-bit range is refused with \<open>OverflowError\<close>. The engine has no NaN: a \<open>float\<close>
  that is NaN is bound as \<open>NULL\<close>.
\<close>

fun bind_parameter :: "pyval \<Rightarrow> error + sqlval" where
  "bind_parameter PyNone = Inr SqlNull"
| "bind_parameter (PyBool b) = Inr (SqlInteger (if b then 1 else 0))"
| "bind_parameter (PyInt i) =
     (if - (2 ^ 63) \<le> i \<and> i < 2 ^ 63 then Inr (SqlInteger i) else Inl OverflowError)"
| "bind_parameter (PyFloat f) = (if f = NaN then Inr SqlNull else Inr (SqlReal f))"
| "bind_parameter (PyStr s) = Inr (SqlText s)"

text \<open>The Python value of a column of a fetched row.\<close>

fun column_value :: "sqlval \<Rightarrow> pyval" where
  "column_value SqlNull = PyNone"
| "column_value (SqlInteger i) = PyInt i"
| "column_value (SqlReal f) = PyFloat f"
| "column_value (SqlText s) = PyStr s"

text \<open>
  The conversion of a 64-bit integer to a double: the nearest number with 53 significant
  bits, a tie going to the one whose last bit is 0. \<open>double_scale a\<close> is the power of
  two by which a magnitude \<open>a\<close> exceeds 53 bits.
\<close>

function double_scale :: "int \<Rightarrow> int" where
  "double_scale a = (if a < 2 ^ 53 then 1 else 2 * double_scale (a div 2))"
  by pat_completeness auto
termination
  by (relation "measure nat") auto

declare double_scale.simps [simp del]

definition double_of_int :: "int \<Rightarrow> real" where
  "double_of_int i =
     (let a = \<bar>i\<bar>;
          s = double_scale a;
          q = a div s;
          r = a mod s;
          q' = (if s < 2 * r \<or> (2 * r = s \<and> odd q) then q + 1 else q)
      in of_int (sgn i * (q' * s)))"

text \<open>
  The column \<open>rating REAL\<close> (line 61) has REAL affinity: an integer is stored as the
  double it converts to, and a text that is a numeric literal is converted to a double.
  Which texts are numeric literals, and their values, is the engine's business: the
  function \<open>num\<close> stands for it and is a parameter of everything that inserts.
\<close>

fun real_affinity :: "(string \<Rightarrow> pyfloat option) \<Rightarrow> sqlval \<Rightarrow> sqlval" where
  "real_affinity num (SqlInteger i) = SqlReal (Finite (double_of_int i))"
| "real_affinity num (SqlText s) = (case num s of Some f \<Rightarrow> SqlReal f | None \<Rightarrow> SqlText s)"
| "real_affinity num v = v"

text \<open>
  A row of the table \<open>videogames\<close> (lines 58 to 63): \<open>id INTEGER PRIMARY KEY
  AUTOINCREMENT\<close>, \<open>name TEXT NOT NULL\<close>, \<open>rating REAL NOT NULL\<close>. The table keeps its
  rows in the order of their ids, and with them the largest id it ever gave out
  (\<open>AUTOINCREMENT\<close> keeps it in \<open>sqlite_sequence\<close>).
\<close>

record row =
  row_id :: int
  row_name :: string
  row_rating :: sqlval

record videogames =
  rows :: "row list"
  autoinc :: int

datatype cursor_state = Open | Closed

text \<open>
  The connection: the content of the database as the connection sees it (\<open>None\<close>
  while the table does not exist), the content at the start of the open transaction
  (\<open>None\<close> when no transaction is open), to which a rollback returns, and the cursors
  created so far, a cursor being its index in that list.
\<close>

record connection =
  content :: "videogames option"
  txn :: "videogames option option"
  cursors :: "cursor_state list"

text \<open>\<open>sqlite3.connect(":memory:")\<close> (line 147): an empty database.\<close>

definition connect :: connection where
  "connect = \<lparr>content = None, txn = None, cursors = []\<rparr>"

definition stored_rows :: "connection \<Rightarrow> row list" where
  "stored_rows db = (case content db of None \<Rightarrow> [] | Some t \<Rightarrow> rows t)"

text \<open>\<open>db.cursor()\<close> and \<open>cursor.close()\<close>.\<close>

definition cursor :: "connection \<Rightarrow> nat \<times> connection" where
  "cursor db = (length (cursors db), db\<lparr>cursors := cursors db @ [Open]\<rparr>)"

definition cursor_close :: "nat \<Rightarrow> connection \<Rightarrow> connection" where
  "cursor_close c db = db\<lparr>cursors := (cursors db)[c := Closed]\<rparr>"

text \<open>
  The implicit \<open>BEGIN\<close> before an \<open>INSERT\<close> or a \<open>DELETE\<close>, and the rollback of the
  open transaction.
\<close>

definition begin_transaction :: "connection \<Rightarrow> connection" where
  "begin_transaction db = (case txn db of None \<Rightarrow> db\<lparr>txn := Some (content db)\<rparr> | Some s \<Rightarrow> db)"

definition rollback :: "connection \<Rightarrow> connection" where
  "rollback db = (case txn db of None \<Rightarrow> db | Some s \<Rightarrow> db\<lparr>content := s, txn := None\<rparr>)"

text \<open>
  \<open>cursor.execute\<close>: a closed cursor raises \<open>ProgrammingError\<close>; an open one runs the
  statement.
\<close>

definition execute ::
  "nat \<Rightarrow> (connection \<Rightarrow> (error + 'a) \<times> connection) \<Rightarrow> connection \<Rightarrow> (error + 'a) \<times> connection"
where
  "execute c stmt db =
     (if c < length (cursors db) \<and> cursors db ! c = Open then stmt db
      else (Inl ProgrammingError, db))"

subsection \<open>The five statements\<close>

text \<open>
  \<open>CREATE TABLE IF NOT EXISTS videogames(...)\<close> (lines 57 to 63). It is not preceded by
  an implicit \<open>BEGIN\<close>; inside an open transaction it belongs to that transaction.
\<close>

definition sql_create_table :: "connection \<Rightarrow> (error + unit) \<times> connection" where
  "sql_create_table db =
     (case content db of
        None \<Rightarrow> (Inr (), db\<lparr>content := Some \<lparr>rows = [], autoinc = 0\<rparr>\<rparr>)
      | Some t \<Rightarrow> (Inr (), db))"

text \<open>The id \<open>AUTOINCREMENT\<close> gives the next row: one more than the largest ever used.\<close>

definition next_rowid :: "videogames \<Rightarrow> int" where
  "next_rowid t = fold max (map row_id (rows t)) (autoinc t) + 1"

text \<open>
  \<open>INSERT INTO videogames(name, rating) VALUES(?, ?)\<close> (lines 74 to 78); its value is
  \<open>cursor.lastrowid\<close>. A missing table is found when the statement is prepared, before
  any \<open>BEGIN\<close>. Then the transaction is begun, the parameters are bound, \<open>NOT NULL\<close> is
  checked (the failing statement alone is undone), and then \<open>UNIQUE(name) ON CONFLICT
  ROLLBACK\<close> (line 62): a name already in the table rolls the whole open transaction back.
\<close>

definition sql_insert ::
  "(string \<Rightarrow> pyfloat option) \<Rightarrow> string \<Rightarrow> pyval \<Rightarrow> connection \<Rightarrow> (error + int) \<times> connection"
where
  "sql_insert num n r db =
     (case content db of
        None \<Rightarrow> (Inl OperationalError, db)
      | Some t \<Rightarrow>
          (let db1 = begin_transaction db in
           case bind_parameter r of
             Inl e \<Rightarrow> (Inl e, db1)
           | Inr v \<Rightarrow>
               (let v' = real_affinity num v in
                if v' = SqlNull then (Inl IntegrityError, db1)
                else if n \<in> set (map row_name (rows t)) then (Inl IntegrityError, rollback db1)
                else
                  (let i = next_rowid t in
                   (Inr i,
                    db1\<lparr>content :=
                      Some \<lparr>rows = rows t @ [\<lparr>row_id = i, row_name = n, row_rating = v'\<rparr>],
                            autoinc = i\<rparr>\<rparr>)))))"

text \<open>
  \<open>SELECT name, rating, id FROM videogames\<close> (line 89) and the same with \<open>WHERE name
  = ?\<close> (line 108); their value is the list of rows the cursor then holds.
\<close>

definition sql_select_all :: "connection \<Rightarrow> (error + row list) \<times> connection" where
  "sql_select_all db =
     (case content db of
        None \<Rightarrow> (Inl OperationalError, db)
      | Some t \<Rightarrow> (Inr (rows t), db))"

definition sql_select_by_name :: "string \<Rightarrow> connection \<Rightarrow> (error + row list) \<times> connection" where
  "sql_select_by_name n db =
     (case content db of
        None \<Rightarrow> (Inl OperationalError, db)
      | Some t \<Rightarrow> (Inr (filter (\<lambda>r. row_name r = n) (rows t)), db))"

text \<open>\<open>DELETE FROM videogames WHERE id = ?\<close> (line 123).\<close>

definition sql_delete :: "int \<Rightarrow> connection \<Rightarrow> (error + unit) \<times> connection" where
  "sql_delete i db =
     (case content db of
        None \<Rightarrow> (Inl OperationalError, db)
      | Some t \<Rightarrow>
          (let db1 = begin_transaction db in
           case bind_parameter (PyInt i) of
             Inl e \<Rightarrow> (Inl e, db1)
           | Inr v \<Rightarrow>
               (Inr (), db1\<lparr>content := Some (t\<lparr>rows := filter (\<lambda>r. row_id r \<noteq> i) (rows t)\<rparr>)\<rparr>)))"

text \<open>\<open>cursor.fetchone()\<close>: the first row, or \<open>None\<close>.\<close>

definition fetchone :: "row list \<Rightarrow> row option" where
  "fetchone rs = (case rs of [] \<Rightarrow> None | r # rest \<Rightarrow> Some r)"

text \<open>
  \<open>VideoGameModel(*row)\<close> for a row \<open>(name, rating, id)\<close> (lines 93 and 110);
  unpacking \<open>None\<close> raises \<open>TypeError\<close>.
\<close>

definition VideoGameModel_of_row :: "row \<Rightarrow> VideoGameModel" where
  "VideoGameModel_of_row r =
     VideoGameModel_init (row_name r) (column_value (row_rating r)) (PyInt (row_id r))"

definition VideoGameModel_star :: "row option \<Rightarrow> error + VideoGameModel" where
  "VideoGameModel_star x = (case x of None \<Rightarrow> Inl TypeError | Some r \<Rightarrow> Inr (VideoGameModel_of_row r))"

section \<open>The storage accessor\<close>

text \<open>
  \<open>database_context\<close> (lines 14 to 27), used as \<open>with database_context(db) as cursor:
  body\<close>. The generator creates a cursor and yields it; when the body ends normally
  the generator is resumed and closes the cursor. An exception of the body is raised
  inside the generator at its \<open>yield\<close>, which no \<open>try\<close> encloses, so it leaves the
  generator at once and line 27 is not run.
\<close>

definition database_context ::
  "connection \<Rightarrow> (nat \<Rightarrow> connection \<Rightarrow> (error + 'a) \<times> connection) \<Rightarrow> (error + 'a) \<times> connection"
where
  "database_context db body =
     (let (c, db1) = cursor db;
          (res, db2) = body c db1
      in case res of
           Inl e \<Rightarrow> (Inl e, db2)
         | Inr v \<Rightarrow> (Inr v, cursor_close c db2))"

text \<open>\<open>create_video_game_table\<close> (lines 50 to 63).\<close>

definition create_video_game_table :: "connection \<Rightarrow> (error + unit) \<times> connection" where
  "create_video_game_table db = database_context db (\<lambda>c. execute c sql_create_table)"

text \<open>
  \<open>add_video_game\<close> (lines 66 to 79). The entity is an object the caller shares: the
  function returns it as it is after the call, changed by line 79 only.
\<close>

definition add_video_game ::
  "(string \<Rightarrow> pyfloat option) \<Rightarrow> connection \<Rightarrow> VideoGameModel \<Rightarrow>
     (error + unit) \<times> connection \<times> VideoGameModel"
where
  "add_video_game num db video_game =
     (case database_context db (\<lambda>c db1.
             case execute c (sql_insert num (name video_game) (rating video_game)) db1 of
               (Inl e, db2) \<Rightarrow> (Inl e, db2)
             | (Inr lastrowid, db2) \<Rightarrow>
                 (case id_setter video_game (PyInt lastrowid) of
                    Inl e \<Rightarrow> (Inl e, db2)
                  | Inr g \<Rightarrow> (Inr g, db2))) of
        (Inl e, db') \<Rightarrow> (Inl e, db', video_game)
      | (Inr g, db') \<Rightarrow> (Inr (), db', g))"

text \<open>\<open>get_all_video_games\<close> (lines 82 to 95).\<close>

definition get_all_video_games :: "connection \<Rightarrow> (error + VideoGameModel list) \<times> connection" where
  "get_all_video_games db =
     database_context db (\<lambda>c db1.
       case execute c sql_select_all db1 of
         (Inl e, db2) \<Rightarrow> (Inl e, db2)
       | (Inr fetched, db2) \<Rightarrow> (Inr (map VideoGameModel_of_row fetched), db2))"

text \<open>\<open>get_video_game_by_name\<close> (lines 98 to 110).\<close>

definition get_video_game_by_name ::
  "connection \<Rightarrow> string \<Rightarrow> (error + VideoGameModel) \<times> connection"
where
  "get_video_game_by_name db n =
     database_context db (\<lambda>c db1.
       case execute c (sql_select_by_name n) db1 of
         (Inl e, db2) \<Rightarrow> (Inl e, db2)
       | (Inr fetched, db2) \<Rightarrow> (VideoGameModel_star (fetchone fetched), db2))"

text \<open>\<open>delete_video_game_by_id\<close> (lines 113 to 123).\<close>

definition delete_video_game_by_id :: "connection \<Rightarrow> int \<Rightarrow> (error + unit) \<times> connection" where
  "delete_video_game_by_id db i = database_context db (\<lambda>c. execute c (sql_delete i))"

section \<open>Notions the properties are stated with\<close>

text \<open>The rows of the store that carry a given name.\<close>

definition rows_named :: "string \<Rightarrow> connection \<Rightarrow> row list" where
  "rows_named n db = filter (\<lambda>r. row_name r = n) (stored_rows db)"

text \<open>
  No two rows share a name: in the content of the database, and in the content a
  rollback would restore.
\<close>

definition unique_in :: "videogames option \<Rightarrow> bool" where
  "unique_in c = (case c of None \<Rightarrow> True | Some t \<Rightarrow> distinct (map row_name (rows t)))"

definition names_unique :: "connection \<Rightarrow> bool" where
  "names_unique db =
     (unique_in (content db) \<and> (case txn db of None \<Rightarrow> True | Some s \<Rightarrow> unique_in s))"

text \<open>A rating that can be bound and, after the affinity of its column, is not \<open>NULL\<close>.\<close>

definition rating_storable :: "(string \<Rightarrow> pyfloat option) \<Rightarrow> pyval \<Rightarrow> bool" where
  "rating_storable num p =
     (case bind_parameter p of Inl e \<Rightarrow> False | Inr v \<Rightarrow> real_affinity num v \<noteq> SqlNull)"



text \<open>
  The content a rollback leaves: that of the start of the open transaction, or the
  present one when no transaction is open.
\<close>

definition rollback_target :: "connection \<Rightarrow> videogames option" where
  "rollback_target db = (case txn db of None \<Rightarrow> content db | Some s \<Rightarrow> s)"

text \<open>The state in which an operation leaves the cursor it created, by its outcome.\<close>

definition cursor_left :: "(error + 'a) \<Rightarrow> cursor_state" where
  "cursor_left res = (case res of Inl e \<Rightarrow> Open | Inr v \<Rightarrow> Closed)"

subsection \<open>Concrete runs\<close>

text \<open>
  The start of \<open>main\<close> (lines 127 to 131) on the connection of line 147, with the
  rating \<open>90.0\<close>, followed by a second insert under the same name. No text is
  inserted as a rating in these runs, so the engine's numeric literals play no part
  (\<open>Map.empty\<close>).
\<close>

definition satisfactory :: VideoGameModel where
  "satisfactory = VideoGameModel_new ''Satisfactory'' (PyFloat (Finite 90))"

definition run_created :: connection where
  "run_created = snd (create_video_game_table connect)"

definition run_added :: "(error + unit) \<times> connection \<times> VideoGameModel" where
  "run_added = add_video_game Map.empty run_created satisfactory"

definition run_added_twice :: "(error + unit) \<times> connection \<times> VideoGameModel" where
  "run_added_twice =
     add_video_game Map.empty (fst (snd run_added)) (VideoGameModel_new ''Satisfactory'' (PyFloat (Finite 75)))"

text \<open>
  A longer run: a second game is inserted, and then the entity of the first insert, which
  now carries its identifier, is inserted again.
\<close>

definition run_added_other :: "(error + unit) \<times> connection \<times> VideoGameModel" where
  "run_added_other =
     add_video_game Map.empty (fst (snd run_added)) (VideoGameModel_new ''Factorio'' (PyFloat (Finite 95)))"

definition run_readded :: "(error + unit) \<times> connection \<times> VideoGameModel" where
  "run_readded = add_video_game Map.empty (fst (snd run_added_other)) (snd (snd run_added))"




text \<open>
  A connection with no open transaction whose table holds one row, as after a commit
  made by a caller between two calls.
\<close>

definition committed_store :: connection where
  "committed_store =
     \<lparr>content = Some \<lparr>rows = [\<lparr>row_id = 1, row_name = ''Satisfactory'', row_rating = SqlReal (Finite 90)\<rparr>],
                       autoinc = 1\<rparr>,
      txn = None, cursors = []\<rparr>"

section \<open>What each operation does, case by case\<close>

text \<open>
  The cursor an operation creates is open when its statement is executed, so the
  statement always runs; each operation is then a case distinction on the store.
\<close>

lemma execute_fresh:
  "execute (length cs) stmt (db\<lparr>cursors := cs @ [Open]\<rparr>) = stmt (db\<lparr>cursors := cs @ [Open]\<rparr>)"
  by (simp add: execute_def)

lemma create_video_game_table_eq:
  "create_video_game_table db =
     (Inr (), db\<lparr>content := Some (case content db of None \<Rightarrow> \<lparr>rows = [], autoinc = 0\<rparr> | Some t \<Rightarrow> t),
                 cursors := cursors db @ [Closed]\<rparr>)"
  by (simp add: create_video_game_table_def database_context_def cursor_def execute_fresh
      sql_create_table_def cursor_close_def split: option.split)

lemma add_video_game_no_table:
  "content db = None \<Longrightarrow>
   add_video_game num db g = (Inl OperationalError, db\<lparr>cursors := cursors db @ [Open]\<rparr>, g)"
  by (simp add: add_video_game_def database_context_def cursor_def execute_fresh sql_insert_def)

lemma add_video_game_unbound:
  "content db = Some t \<Longrightarrow> bind_parameter (rating g) = Inl e \<Longrightarrow>
   add_video_game num db g = (Inl e, (begin_transaction db)\<lparr>cursors := cursors db @ [Open]\<rparr>, g)"
  by (simp add: add_video_game_def database_context_def cursor_def execute_fresh sql_insert_def
      begin_transaction_def split: option.split)

lemma add_video_game_null:
  "content db = Some t \<Longrightarrow> bind_parameter (rating g) = Inr v \<Longrightarrow> real_affinity num v = SqlNull \<Longrightarrow>
   add_video_game num db g = (Inl IntegrityError, (begin_transaction db)\<lparr>cursors := cursors db @ [Open]\<rparr>, g)"
  by (simp add: add_video_game_def database_context_def cursor_def execute_fresh sql_insert_def
      begin_transaction_def split: option.split)

lemma add_video_game_conflict:
  "content db = Some t \<Longrightarrow> bind_parameter (rating g) = Inr v \<Longrightarrow> real_affinity num v \<noteq> SqlNull \<Longrightarrow>
   name g \<in> set (map row_name (rows t)) \<Longrightarrow>
   add_video_game num db g =
     (Inl IntegrityError, db\<lparr>content := rollback_target db, txn := None, cursors := cursors db @ [Open]\<rparr>, g)"
  by (simp add: add_video_game_def database_context_def cursor_def execute_fresh sql_insert_def
      begin_transaction_def rollback_def rollback_target_def split: option.split)

lemma add_video_game_inserted:
  "content db = Some t \<Longrightarrow> bind_parameter (rating g) = Inr v \<Longrightarrow> real_affinity num v \<noteq> SqlNull \<Longrightarrow>
   name g \<notin> set (map row_name (rows t)) \<Longrightarrow>
   add_video_game num db g =
     (Inr (),
      db\<lparr>content := Some \<lparr>rows = rows t @ [\<lparr>row_id = next_rowid t, row_name = name g,
                                              row_rating = real_affinity num v\<rparr>],
                            autoinc = next_rowid t\<rparr>,
         txn := Some (rollback_target db),
         cursors := cursors db @ [Closed]\<rparr>,
      g\<lparr>priv_id := PyInt (next_rowid t)\<rparr>)"
  by (simp add: add_video_game_def database_context_def cursor_def execute_fresh sql_insert_def
      begin_transaction_def rollback_target_def id_setter_def cursor_close_def Let_def split: option.split)


lemma get_all_video_games_eq:
  "get_all_video_games db =
     (case content db of
        None \<Rightarrow> (Inl OperationalError, db\<lparr>cursors := cursors db @ [Open]\<rparr>)
      | Some t \<Rightarrow> (Inr (map VideoGameModel_of_row (rows t)), db\<lparr>cursors := cursors db @ [Closed]\<rparr>))"
  by (simp add: get_all_video_games_def database_context_def cursor_def execute_fresh
      sql_select_all_def cursor_close_def split: option.split)

lemma get_video_game_by_name_eq:
  "get_video_game_by_name db n =
     (case content db of
        None \<Rightarrow> (Inl OperationalError, db\<lparr>cursors := cursors db @ [Open]\<rparr>)
      | Some t \<Rightarrow>
          (case filter (\<lambda>r. row_name r = n) (rows t) of
             [] \<Rightarrow> (Inl TypeError, db\<lparr>cursors := cursors db @ [Open]\<rparr>)
           | r # rest \<Rightarrow> (Inr (VideoGameModel_of_row r), db\<lparr>cursors := cursors db @ [Closed]\<rparr>)))"
  by (simp add: get_video_game_by_name_def database_context_def cursor_def execute_fresh
      sql_select_by_name_def cursor_close_def fetchone_def VideoGameModel_star_def
      split: option.split list.split)

lemma delete_video_game_by_id_eq:
  "delete_video_game_by_id db i =
     (case content db of
        None \<Rightarrow> (Inl OperationalError, db\<lparr>cursors := cursors db @ [Open]\<rparr>)
      | Some t \<Rightarrow>
          (if - (2 ^ 63) \<le> i \<and> i < 2 ^ 63
           then (Inr (), db\<lparr>content := Some (t\<lparr>rows := filter (\<lambda>r. row_id r \<noteq> i) (rows t)\<rparr>),
                            txn := Some (rollback_target db),
                            cursors := cursors db @ [Closed]\<rparr>)
           else (Inl OverflowError, db\<lparr>txn := Some (rollback_target db), cursors := cursors db @ [Open]\<rparr>)))"
  by (simp add: delete_video_game_by_id_def database_context_def cursor_def execute_fresh
      sql_delete_def cursor_close_def begin_transaction_def rollback_target_def Let_def
      split: option.split) auto

lemma fold_max_lower: "(a::int) \<le> fold max xs a"
  by (induction xs arbitrary: a) (auto intro: order_trans [OF max.cobounded2])

lemma fold_max_upper: "x \<in> set xs \<Longrightarrow> (x::int) \<le> fold max xs a"
proof (induction xs arbitrary: a)
  case Nil
  then show ?case by simp
next
  case (Cons y ys)
  show ?case
  proof (cases "x = y")
    case True
    have "max y a \<le> fold max ys (max y a)" by (rule fold_max_lower)
    with True show ?thesis by simp
  next
    case False
    with Cons show ?thesis by simp
  qed
qed

lemma next_rowid_fresh: "next_rowid t \<notin> set (map row_id (rows t))"
proof
  assume "next_rowid t \<in> set (map row_id (rows t))"
  then have "next_rowid t \<le> fold max (map row_id (rows t)) (autoinc t)"
    by (rule fold_max_upper)
  then show False by (simp add: next_rowid_def)
qed

lemma names_unique_cursors [simp]: "names_unique (db\<lparr>cursors := cs\<rparr>) = names_unique db"
  by (simp add: names_unique_def)

lemma names_unique_begin: "names_unique db \<Longrightarrow> names_unique (begin_transaction db)"
  by (auto simp: names_unique_def begin_transaction_def split: option.splits)

lemma names_unique_target: "names_unique db \<Longrightarrow> unique_in (rollback_target db)"
  by (auto simp: names_unique_def rollback_target_def split: option.splits)

lemma names_unique_connect: "names_unique connect"
  by (simp add: names_unique_def unique_in_def connect_def)

lemma names_unique_create:
  "names_unique db \<Longrightarrow> names_unique (snd (create_video_game_table db))"
  by (simp add: create_video_game_table_eq names_unique_def unique_in_def split: option.splits)

lemma names_unique_add:
  assumes "names_unique db"
  shows "names_unique (fst (snd (add_video_game num db g)))"
proof (cases "content db")
  case None
  with assms show ?thesis by (simp add: add_video_game_no_table)
next
  case (Some t)
  show ?thesis
  proof (cases "bind_parameter (rating g)")
    case (Inl e)
    with Some assms show ?thesis
      by (simp add: add_video_game_unbound names_unique_begin)
  next
    case (Inr v)
    show ?thesis
    proof (cases "real_affinity num v = SqlNull")
      case True
      with Some Inr assms show ?thesis
        by (simp add: add_video_game_null names_unique_begin)
    next
      case False
      show ?thesis
      proof (cases "name g \<in> set (map row_name (rows t))")
        case True
        have "unique_in (rollback_target db)" using assms by (rule names_unique_target)
        with Some Inr False True show ?thesis
          by (simp add: add_video_game_conflict names_unique_def)
      next
        case new: False
        have "unique_in (rollback_target db)" using assms by (rule names_unique_target)
        moreover have "distinct (map row_name (rows t))"
          using assms Some by (simp add: names_unique_def unique_in_def)
        ultimately show ?thesis using Some Inr False new
          by (simp add: add_video_game_inserted names_unique_def unique_in_def)
      qed
    qed
  qed
qed

lemma names_unique_get_all:
  "names_unique db \<Longrightarrow> names_unique (snd (get_all_video_games db))"
  by (simp add: get_all_video_games_eq split: option.split)

lemma names_unique_get_by_name:
  "names_unique db \<Longrightarrow> names_unique (snd (get_video_game_by_name db n))"
  by (simp add: get_video_game_by_name_eq split: option.split list.split)

lemma names_unique_delete:
  assumes "names_unique db"
  shows "names_unique (snd (delete_video_game_by_id db i))"
proof (cases "content db")
  case None
  with assms show ?thesis by (simp add: delete_video_game_by_id_eq)
next
  case (Some t)
  have "unique_in (rollback_target db)" using assms by (rule names_unique_target)
  moreover have "distinct (map row_name (rows t))"
    using assms Some by (simp add: names_unique_def unique_in_def)
  ultimately show ?thesis using Some
    by (simp add: delete_video_game_by_id_eq names_unique_def unique_in_def distinct_map_filter)
qed

lemma distinct_names_filter:
  "distinct (map row_name rs) \<Longrightarrow> length (filter (\<lambda>r. row_name r = n) rs) \<le> 1"
  by (induction rs) (auto simp: filter_empty_conv image_iff)

lemma unique_in_rows_named:
  "unique_in (content db) \<Longrightarrow> length (rows_named n db) \<le> 1"
  using distinct_names_filter [of _ n]
  by (auto simp: unique_in_def rows_named_def stored_rows_def split: option.splits)

lemma rows_named_member: "rows_named n db \<noteq> [] \<longleftrightarrow> n \<in> set (map row_name (stored_rows db))"
  by (auto simp: rows_named_def filter_empty_conv)

lemma add_video_game_existing:
  assumes "rows_named (name g) db \<noteq> []" and "rating_storable num (rating g)"
  shows "add_video_game num db g =
     (Inl IntegrityError, db\<lparr>content := rollback_target db, txn := None, cursors := cursors db @ [Open]\<rparr>, g)"
proof -
  have "\<exists>t. content db = Some t \<and> name g \<in> set (map row_name (rows t))"
    using assms(1) by (cases "content db") (simp_all add: rows_named_member stored_rows_def)
  then obtain t where t: "content db = Some t" and n: "name g \<in> set (map row_name (rows t))"
    by blast
  from assms(2) obtain v where v: "bind_parameter (rating g) = Inr v" "real_affinity num v \<noteq> SqlNull"
    by (auto simp: rating_storable_def split: sum.splits)
  from t v n show ?thesis by (rule add_video_game_conflict)
qed

lemma double_of_int_exact: "\<bar>i\<bar> < 2 ^ 53 \<Longrightarrow> double_of_int i = of_int i"
proof -
  assume "\<bar>i\<bar> < 2 ^ 53"
  then have "double_scale \<bar>i\<bar> = 1" by (simp add: double_scale.simps)
  then have "double_of_int i = of_int (sgn i * \<bar>i\<bar>)" by (simp add: double_of_int_def)
  then show ?thesis by (simp add: mult_sgn_abs)
qed





lemma add_video_game_success:
  assumes "fst (add_video_game num db g) = Inr ()"
  shows "\<exists>t v. content db = Some t \<and> bind_parameter (rating g) = Inr v \<and>
           real_affinity num v \<noteq> SqlNull \<and> name g \<notin> set (map row_name (rows t))"
proof (cases "content db")
  case None
  with assms show ?thesis by (simp add: add_video_game_no_table)
next
  case (Some t)
  show ?thesis
  proof (cases "bind_parameter (rating g)")
    case (Inl e)
    with Some assms show ?thesis by (simp add: add_video_game_unbound)
  next
    case (Inr v)
    have "real_affinity num v \<noteq> SqlNull"
      using Some Inr assms by (auto simp: add_video_game_null)
    moreover have "name g \<notin> set (map row_name (rows t))"
      using Some Inr assms calculation add_video_game_conflict [of db t g v num] by auto
    ultimately show ?thesis using Some Inr by simp
  qed
qed

lemma cursor_after_operation:
  "cursors (snd (create_video_game_table db)) = cursors db @ [Closed]"
  "cursors (fst (snd (add_video_game num db g))) = cursors db @ [cursor_left (fst (add_video_game num db g))]"
  "cursors (snd (get_all_video_games db)) = cursors db @ [cursor_left (fst (get_all_video_games db))]"
  "cursors (snd (get_video_game_by_name db n)) = cursors db @ [cursor_left (fst (get_video_game_by_name db n))]"
  "cursors (snd (delete_video_game_by_id db i)) = cursors db @ [cursor_left (fst (delete_video_game_by_id db i))]"
proof -
  show "cursors (snd (create_video_game_table db)) = cursors db @ [Closed]"
    by (simp add: create_video_game_table_eq)
  show "cursors (snd (get_all_video_games db)) = cursors db @ [cursor_left (fst (get_all_video_games db))]"
    by (simp add: get_all_video_games_eq cursor_left_def split: option.split)
  show "cursors (snd (get_video_game_by_name db n)) = cursors db @ [cursor_left (fst (get_video_game_by_name db n))]"
    by (simp add: get_video_game_by_name_eq cursor_left_def split: option.split list.split)
  show "cursors (snd (delete_video_game_by_id db i)) = cursors db @ [cursor_left (fst (delete_video_game_by_id db i))]"
    by (simp add: delete_video_game_by_id_eq cursor_left_def split: option.split)
  show "cursors (fst (snd (add_video_game num db g))) = cursors db @ [cursor_left (fst (add_video_game num db g))]"
  proof (cases "content db")
    case None
    then show ?thesis by (simp add: add_video_game_no_table cursor_left_def)
  next
    case (Some t)
    show ?thesis
    proof (cases "bind_parameter (rating g)")
      case (Inl e)
      with Some show ?thesis
        by (simp add: add_video_game_unbound cursor_left_def begin_transaction_def split: option.split)
    next
      case (Inr v)
      with Some show ?thesis
        by (cases "real_affinity num v = SqlNull"; cases "name g \<in> set (map row_name (rows t))")
          (simp_all add: add_video_game_null add_video_game_conflict add_video_game_inserted
            cursor_left_def begin_transaction_def split: option.split)
    qed
  qed
qed

section \<open>Uniqueness of names\<close>

text \<open>
  C1, as amended. No two rows of the store share a name: the property holds of the new
  connection and every one of the five operations keeps it. If the store contains a
  row with name N, inserting an entity with name N (whose rating can be stored) fails
  with \<open>IntegrityError\<close> and adds no row. The failed insert rolls the open transaction
  back (\<open>ON CONFLICT ROLLBACK\<close>, line 62; nothing is ever committed): the store returns
  to its content at the start of that transaction, and afterwards holds at most one
  row with name N. When no transaction was open, the store is unchanged and holds
  exactly one such row.
\<close>

theorem names_remain_unique:
  assumes "names_unique db"
  shows "names_unique connect \<and>
         names_unique (snd (create_video_game_table db)) \<and>
         names_unique (fst (snd (add_video_game num db g))) \<and>
         names_unique (snd (get_all_video_games db)) \<and>
         names_unique (snd (get_video_game_by_name db n)) \<and>
         names_unique (snd (delete_video_game_by_id db i)) \<and>
         (rows_named (name g) db \<noteq> [] \<and> rating_storable num (rating g) \<longrightarrow>
            (\<exists>db'. add_video_game num db g = (Inl IntegrityError, db', g) \<and>
               content db' = rollback_target db \<and>
               length (rows_named (name g) db') \<le> 1 \<and>
               (txn db = None \<longrightarrow> content db' = content db \<and> length (rows_named (name g) db') = 1)))"
proof -
  have dup: "\<exists>db'. add_video_game num db g = (Inl IntegrityError, db', g) \<and>
               content db' = rollback_target db \<and>
               length (rows_named (name g) db') \<le> 1 \<and>
               (txn db = None \<longrightarrow> content db' = content db \<and> length (rows_named (name g) db') = 1)"
    if ex: "rows_named (name g) db \<noteq> []" and st: "rating_storable num (rating g)"
  proof -
    let ?db' = "db\<lparr>content := rollback_target db, txn := None, cursors := cursors db @ [Open]\<rparr>"
    have eq: "add_video_game num db g = (Inl IntegrityError, ?db', g)"
      using ex st by (rule add_video_game_existing)
    have "names_unique (fst (snd (add_video_game num db g)))"
      using assms by (rule names_unique_add)
    then have "unique_in (content ?db')" by (simp add: eq names_unique_def)
    then have le: "length (rows_named (name g) ?db') \<le> 1" by (rule unique_in_rows_named)
    have same: "content ?db' = content db" if "txn db = None"
      using that by (simp add: rollback_target_def)
    have one: "length (rows_named (name g) ?db') = 1" if "txn db = None"
    proof -
      have "rows_named (name g) ?db' = rows_named (name g) db"
        using same [OF that] by (simp add: rows_named_def stored_rows_def)
      with ex le show ?thesis by (cases "rows_named (name g) db") simp_all
    qed
    from eq le same one show ?thesis by (intro exI [of _ ?db']) simp
  qed
  from assms dup show ?thesis
    by (simp add: names_unique_connect names_unique_create names_unique_add
        names_unique_get_all names_unique_get_by_name names_unique_delete)
qed

text \<open>The theorem at a store with one committed row and no open transaction.\<close>

theorem names_remain_unique_witness:
  "names_unique committed_store \<and>
   rows_named ''Satisfactory'' committed_store \<noteq> [] \<and>
   rating_storable Map.empty (PyFloat (Finite 75)) \<and>
   txn committed_store = None \<and>
   (\<exists>db'. add_video_game Map.empty committed_store (VideoGameModel_new ''Satisfactory'' (PyFloat (Finite 75))) =
            (Inl IntegrityError, db', VideoGameModel_new ''Satisfactory'' (PyFloat (Finite 75))) \<and>
          content db' = content committed_store \<and>
          length (rows_named ''Satisfactory'' db') = 1) \<and>
   names_unique (snd (delete_video_game_by_id committed_store 1))"
proof -
  have u: "names_unique committed_store"
    by (simp add: names_unique_def unique_in_def committed_store_def)
  have r: "rows_named ''Satisfactory'' committed_store \<noteq> []"
    by (simp add: rows_named_def stored_rows_def committed_store_def)
  have s: "rating_storable Map.empty (PyFloat (Finite 75))"
    by (simp add: rating_storable_def)
  have t: "txn committed_store = None"
    by (simp add: committed_store_def)
  have g: "name (VideoGameModel_new ''Satisfactory'' (PyFloat (Finite 75))) = ''Satisfactory''"
          "rating (VideoGameModel_new ''Satisfactory'' (PyFloat (Finite 75))) = PyFloat (Finite 75)"
    by (simp_all add: VideoGameModel_new_def VideoGameModel_init_def)
  from names_remain_unique [OF u, of Map.empty "VideoGameModel_new ''Satisfactory'' (PyFloat (Finite 75))" "[]" 1]
    u r s t g show ?thesis by auto
qed

text \<open>
  C1 as stated fails. After \<open>create_video_game_table\<close> and one insert of
  \<open>Satisfactory\<close>, the store contains that row; a second insert under the same name
  raises \<open>IntegrityError\<close> and leaves the store changed, with no row of that name.
\<close>

theorem duplicate_insert_empties_store:
  "rows_named ''Satisfactory'' (fst (snd run_added)) \<noteq> [] \<and>
   fst run_added_twice = Inl IntegrityError \<and>
   rows_named ''Satisfactory'' (fst (snd run_added_twice)) = [] \<and>
   content (fst (snd run_added_twice)) \<noteq> content (fst (snd run_added))"
  by code_simp

section \<open>Lookup by name\<close>

text \<open>
  C2, as amended. In every state of the store and for every name: if no row has the
  name, \<open>get_video_game_by_name\<close> raises and returns no entity, and the exception is
  the \<open>TypeError\<close> of unpacking the \<open>None\<close> that \<open>fetchone\<close> returns, line 110
  (\<open>OperationalError\<close> when the table does not exist): the code has no exception of
  its own for a name that is not found. If exactly one row has the name,
  the result is the entity of that row; and whatever entity it returns is the entity of
  a stored row of that name, with that name and the row's integer identifier.
\<close>

theorem get_video_game_by_name_result:
  "(rows_named n db = [] \<longrightarrow>
      fst (get_video_game_by_name db n) =
        Inl (if content db = None then OperationalError else TypeError)) \<and>
   (\<forall>r. rows_named n db = [r] \<longrightarrow>
      fst (get_video_game_by_name db n) = Inr (VideoGameModel_of_row r)) \<and>
   (\<forall>g. fst (get_video_game_by_name db n) = Inr g \<longrightarrow>
      (\<exists>r. r \<in> set (stored_rows db) \<and> row_name r = n \<and> g = VideoGameModel_of_row r \<and>
           name g = n \<and> id_getter g = PyInt (row_id r)))"
proof (cases "content db")
  case None
  then show ?thesis
    by (simp add: get_video_game_by_name_eq rows_named_def stored_rows_def)
next
  case (Some t)
  show ?thesis
  proof (cases "filter (\<lambda>r. row_name r = n) (rows t)")
    case Nil
    with Some show ?thesis
      by (simp add: get_video_game_by_name_eq rows_named_def stored_rows_def)
  next
    case (Cons r rest)
    then have "r \<in> set (filter (\<lambda>r. row_name r = n) (rows t))" by simp
    then have "r \<in> set (rows t)" "row_name r = n" by simp_all
    with Some Cons show ?thesis
      by (auto simp: get_video_game_by_name_eq rows_named_def stored_rows_def
          VideoGameModel_of_row_def VideoGameModel_init_def id_getter_def)
  qed
qed

text \<open>
  The theorem after the first insert of the run: a name that is absent, and the name
  that was inserted.
\<close>

theorem get_video_game_by_name_result_witness:
  "rows_named ''Nonexistent'' (fst (snd run_added)) = [] \<and>
   fst (get_video_game_by_name (fst (snd run_added)) ''Nonexistent'') = Inl TypeError \<and>
   rows_named ''Satisfactory'' (fst (snd run_added)) =
     [\<lparr>row_id = 1, row_name = ''Satisfactory'', row_rating = SqlReal (Finite 90)\<rparr>] \<and>
   fst (get_video_game_by_name (fst (snd run_added)) ''Satisfactory'') =
     Inr \<lparr>name = ''Satisfactory'', rating = PyFloat (Finite 90), priv_id = PyInt 1\<rparr>"
proof -
  have a: "rows_named ''Nonexistent'' (fst (snd run_added)) = []" by code_simp
  have b: "content (fst (snd run_added)) \<noteq> None" by code_simp
  have c: "rows_named ''Satisfactory'' (fst (snd run_added)) =
     [\<lparr>row_id = 1, row_name = ''Satisfactory'', row_rating = SqlReal (Finite 90)\<rparr>]" by code_simp
  have d: "VideoGameModel_of_row \<lparr>row_id = 1, row_name = ''Satisfactory'', row_rating = SqlReal (Finite 90)\<rparr> =
     \<lparr>name = ''Satisfactory'', rating = PyFloat (Finite 90), priv_id = PyInt 1\<rparr>"
    by (simp add: VideoGameModel_of_row_def VideoGameModel_init_def)
  from get_video_game_by_name_result [of "''Nonexistent''" "fst (snd run_added)"]
    get_video_game_by_name_result [of "''Satisfactory''" "fst (snd run_added)"]
    a b c d show ?thesis by simp
qed

text \<open>
  C2 as stated fails: on the table just created, where no row matches, the lookup of
  \<open>Nonexistent\<close> raises \<open>TypeError\<close>, the exception of a type mismatch and not one
  that tells a missing row; on the new connection, which has no table, it raises
  \<open>OperationalError\<close>.
\<close>

theorem lookup_of_missing_name_raises_TypeError:
  "rows_named ''Nonexistent'' run_created = [] \<and>
   fst (get_video_game_by_name run_created ''Nonexistent'') = Inl TypeError \<and>
   rows_named ''Nonexistent'' connect = [] \<and>
   fst (get_video_game_by_name connect ''Nonexistent'') = Inl OperationalError"
  by code_simp

section \<open>The cursor of an operation\<close>

text \<open>
  C3 does not hold of the code. The second insert of \<open>Satisfactory\<close> raises
  \<open>IntegrityError\<close> inside the \<open>with\<close> block; the two earlier operations closed their
  cursors, this one leaves its cursor open (the third of the list).
\<close>

theorem cursor_left_open_on_error:
  "fst run_added_twice = Inl IntegrityError \<and>
   cursors (fst (snd run_added)) = [Closed, Closed] \<and>
   cursors (fst (snd run_added_twice)) = [Closed, Closed, Open]"
  by code_simp

section \<open>Insert under an existing name\<close>

text \<open>
  C4, as amended. For every entity whose name already exists in the store (and whose
  rating can be stored), \<open>add_video_game\<close> raises \<open>IntegrityError\<close> and writes no
  row: the open transaction is rolled back, so the store has the content it had at
  the start of that transaction and no transaction is open afterwards; the content is
  unchanged when no transaction was open. The entity is left as it was: its identifier
  keeps the value it had before the call.
\<close>

theorem add_video_game_duplicate_rolls_back:
  assumes "rows_named (name g) db \<noteq> []" and "rating_storable num (rating g)"
  shows "\<exists>db'. add_video_game num db g = (Inl IntegrityError, db', g) \<and>
           content db' = rollback_target db \<and> txn db' = None \<and>
           (txn db = None \<longrightarrow> content db' = content db) \<and>
           id_getter (snd (snd (add_video_game num db g))) = id_getter g"
proof -
  let ?db' = "db\<lparr>content := rollback_target db, txn := None, cursors := cursors db @ [Open]\<rparr>"
  have eq: "add_video_game num db g = (Inl IntegrityError, ?db', g)"
    using assms by (rule add_video_game_existing)
  have "txn db = None \<longrightarrow> content ?db' = content db"
    by (simp add: rollback_target_def)
  with eq show ?thesis by (intro exI [of _ ?db']) simp
qed

text \<open>
  The theorem after two inserts in one open transaction, for a new entity named
  \<open>Satisfactory\<close>: its identifier stays unset.
\<close>

theorem add_video_game_duplicate_rolls_back_witness:
  "rows_named ''Satisfactory'' (fst (snd run_added_other)) \<noteq> [] \<and>
   rating_storable Map.empty (PyFloat (Finite 90)) \<and>
   rollback_target (fst (snd run_added_other)) = Some \<lparr>rows = [], autoinc = 0\<rparr> \<and>
   (\<exists>db'. add_video_game Map.empty (fst (snd run_added_other)) satisfactory =
            (Inl IntegrityError, db', satisfactory) \<and>
          content db' = Some \<lparr>rows = [], autoinc = 0\<rparr> \<and> txn db' = None) \<and>
   id_getter (snd (snd (add_video_game Map.empty (fst (snd run_added_other)) satisfactory))) = PyNone"
proof -
  have n: "name satisfactory = ''Satisfactory''" "rating satisfactory = PyFloat (Finite 90)"
    "id_getter satisfactory = PyNone"
    by (simp_all add: satisfactory_def VideoGameModel_new_def VideoGameModel_init_def id_getter_def)
  have a: "rows_named ''Satisfactory'' (fst (snd run_added_other)) \<noteq> []" by code_simp
  have b: "rating_storable Map.empty (PyFloat (Finite 90))" by (simp add: rating_storable_def)
  have c: "rollback_target (fst (snd run_added_other)) = Some \<lparr>rows = [], autoinc = 0\<rparr>" by code_simp
  from add_video_game_duplicate_rolls_back [of satisfactory "fst (snd run_added_other)" Map.empty]
    n a b c show ?thesis by auto
qed

text \<open>
  C4 as stated fails. With two rows stored, inserting the entity of the first again
  raises \<open>IntegrityError\<close>, but the store is not unchanged: both rows are gone. The
  identifier of the entity is not unset either: it is still the 1 of its first insert.
\<close>

theorem duplicate_insert_changes_store:
  "rows_named ''Satisfactory'' (fst (snd run_added_other)) \<noteq> [] \<and>
   fst run_readded = Inl IntegrityError \<and>
   stored_rows (fst (snd run_added_other)) =
     [\<lparr>row_id = 1, row_name = ''Satisfactory'', row_rating = SqlReal (Finite 90)\<rparr>,
      \<lparr>row_id = 2, row_name = ''Factorio'', row_rating = SqlReal (Finite 95)\<rparr>] \<and>
   stored_rows (fst (snd run_readded)) = [] \<and>
   id_getter (snd (snd run_readded)) = PyInt 1"
  by code_simp

section \<open>Entity model: the identifier guard\<close>

text \<open>
  C5, as amended. Assigning a value that is not an instance of \<open>int\<close> to the identifier
  raises at the assignment, and the exception is \<open>ValueError\<close> (line 46), the entity
  keeping its fields; assigning an instance of \<open>int\<close> succeeds and stores the value.
\<close>

theorem id_setter_guard:
  "(\<not> isinstance_int v \<longrightarrow> id_setter g v = Inl ValueError) \<and>
   (isinstance_int v \<longrightarrow>
      (\<exists>g'. id_setter g v = Inr g' \<and> id_getter g' = v \<and> name g' = name g \<and> rating g' = rating g))"
  by (simp add: id_setter_def id_getter_def)

text \<open>The theorem for the string \<open>'7'\<close>, which is refused, and the integer 7, which is stored.\<close>

theorem id_setter_guard_witness:
  "\<not> isinstance_int (PyStr ''7'') \<and>
   id_setter (VideoGameModel_new ''Satisfactory'' (PyFloat (Finite 90))) (PyStr ''7'') = Inl ValueError \<and>
   isinstance_int (PyInt 7) \<and>
   (\<exists>g'. id_setter (VideoGameModel_new ''Satisfactory'' (PyFloat (Finite 90))) (PyInt 7) = Inr g' \<and>
      id_getter g' = PyInt 7)"
  using id_setter_guard [of "PyStr ''7''" "VideoGameModel_new ''Satisfactory'' (PyFloat (Finite 90))"]
    id_setter_guard [of "PyInt 7" "VideoGameModel_new ''Satisfactory'' (PyFloat (Finite 90))"]
  by auto

text \<open>
  C5 as stated fails: the exception raised for the string \<open>'7'\<close> is not \<open>TypeError\<close>.
\<close>

theorem id_setter_not_TypeError:
  "id_setter (VideoGameModel_new ''Satisfactory'' (PyFloat (Finite 90))) (PyStr ''7'') = Inl ValueError \<and>
   id_setter (VideoGameModel_new ''Satisfactory'' (PyFloat (Finite 90))) (PyStr ''7'') \<noteq> Inl TypeError"
  by (simp add: id_setter_def)

section \<open>Insert, then find\<close>




section \<open>The identifier written back\<close>

text \<open>
  C7. Whenever \<open>add_video_game\<close> succeeds, the entity it leaves is the entity passed
  with its identifier replaced by the id of the row just appended to the store, whatever
  the identifier was before; that id is new among the ids of the store.
\<close>

theorem add_video_game_writes_id:
  assumes "fst (add_video_game num db g) = Inr ()"
  shows "\<exists>db' i v. add_video_game num db g = (Inr (), db', g\<lparr>priv_id := PyInt i\<rparr>) \<and>
           id_getter (snd (snd (add_video_game num db g))) = PyInt i \<and>
           stored_rows db' = stored_rows db @ [\<lparr>row_id = i, row_name = name g, row_rating = v\<rparr>] \<and>
           i \<notin> set (map row_id (stored_rows db))"
proof -
  from add_video_game_success [OF assms] obtain t v where
    t: "content db = Some t" and v: "bind_parameter (rating g) = Inr v"
    "real_affinity num v \<noteq> SqlNull" and n: "name g \<notin> set (map row_name (rows t))"
    by blast
  have fresh: "next_rowid t \<notin> set (map row_id (stored_rows db))"
    using next_rowid_fresh [of t] t by (simp add: stored_rows_def)
  from t v n fresh show ?thesis
    by (simp add: add_video_game_inserted stored_rows_def id_getter_def)
qed

text \<open>
  The theorem for an entity that already carries the identifier 7: it becomes 2.
\<close>

theorem add_video_game_writes_id_witness:
  "fst (add_video_game Map.empty (fst (snd run_added))
          \<lparr>name = ''Factorio'', rating = PyFloat (Finite 95), priv_id = PyInt 7\<rparr>) = Inr () \<and>
   (\<exists>db' i v. add_video_game Map.empty (fst (snd run_added))
          \<lparr>name = ''Factorio'', rating = PyFloat (Finite 95), priv_id = PyInt 7\<rparr> =
            (Inr (), db', \<lparr>name = ''Factorio'', rating = PyFloat (Finite 95), priv_id = PyInt i\<rparr>) \<and>
      stored_rows db' =
        stored_rows (fst (snd run_added)) @ [\<lparr>row_id = i, row_name = ''Factorio'', row_rating = v\<rparr>] \<and>
      i \<notin> set (map row_id (stored_rows (fst (snd run_added)))))"
proof -
  have a: "fst (add_video_game Map.empty (fst (snd run_added))
          \<lparr>name = ''Factorio'', rating = PyFloat (Finite 95), priv_id = PyInt 7\<rparr>) = Inr ()"
    by code_simp
  from add_video_game_writes_id [OF a] a show ?thesis by fastforce
qed

section \<open>Creating the table\<close>

text \<open>
  C8. \<open>create_video_game_table\<close> never fails, neither the first time nor when
  called again on the store it leaves; the second call leaves the content of the first;
  and on a store whose table exists the content, rows included, is unchanged.
\<close>

theorem create_video_game_table_idempotent:
  "fst (create_video_game_table db) = Inr () \<and>
   fst (create_video_game_table (snd (create_video_game_table db))) = Inr () \<and>
   content (snd (create_video_game_table (snd (create_video_game_table db)))) =
     content (snd (create_video_game_table db)) \<and>
   (\<forall>t. content db = Some t \<longrightarrow>
      content (snd (create_video_game_table db)) = Some t \<and>
      txn (snd (create_video_game_table db)) = txn db)"
  by (simp add: create_video_game_table_eq)

text \<open>
  The theorem on the store after the first insert, and on the new connection.
\<close>

theorem create_video_game_table_idempotent_witness:
  "content (fst (snd run_added)) =
     Some \<lparr>rows = [\<lparr>row_id = 1, row_name = ''Satisfactory'', row_rating = SqlReal (Finite 90)\<rparr>], autoinc = 1\<rparr> \<and>
   fst (create_video_game_table (fst (snd run_added))) = Inr () \<and>
   content (snd (create_video_game_table (fst (snd run_added)))) =
     Some \<lparr>rows = [\<lparr>row_id = 1, row_name = ''Satisfactory'', row_rating = SqlReal (Finite 90)\<rparr>], autoinc = 1\<rparr> \<and>
   fst (create_video_game_table (snd (create_video_game_table connect))) = Inr ()"
proof -
  have a: "content (fst (snd run_added)) =
     Some \<lparr>rows = [\<lparr>row_id = 1, row_name = ''Satisfactory'', row_rating = SqlReal (Finite 90)\<rparr>], autoinc = 1\<rparr>"
    by code_simp
  from create_video_game_table_idempotent [of "fst (snd run_added)"]
    create_video_game_table_idempotent [of connect] a show ?thesis by simp
qed

section \<open>Delete by id\<close>

text \<open>
  C9, as amended. When the table exists and the id is in the signed 64-bit range,
  \<open>delete_video_game_by_id\<close> succeeds; the rows it leaves are those whose id is
  different, unchanged and in their order; and when no row has the id the content is
  unchanged.
\<close>

theorem delete_video_game_by_id_effect:
  assumes "content db = Some t" and "- (2 ^ 63) \<le> i" and "i < 2 ^ 63"
  shows "fst (delete_video_game_by_id db i) = Inr () \<and>
         content (snd (delete_video_game_by_id db i)) =
           Some (t\<lparr>rows := filter (\<lambda>r. row_id r \<noteq> i) (rows t)\<rparr>) \<and>
         (i \<notin> set (map row_id (rows t)) \<longrightarrow> content (snd (delete_video_game_by_id db i)) = content db)"
proof -
  have "filter (\<lambda>r. row_id r \<noteq> i) (rows t) = rows t" if "i \<notin> set (map row_id (rows t))"
    using that by (force simp: filter_id_conv)
  with assms show ?thesis by (simp add: delete_video_game_by_id_eq)
qed

text \<open>
  The theorem on a store of two rows: the id 1, which is present, and 999999, which is
  not.
\<close>

theorem delete_video_game_by_id_effect_witness:
  "content (fst (snd run_added_other)) =
     Some \<lparr>rows = [\<lparr>row_id = 1, row_name = ''Satisfactory'', row_rating = SqlReal (Finite 90)\<rparr>,
                   \<lparr>row_id = 2, row_name = ''Factorio'', row_rating = SqlReal (Finite 95)\<rparr>], autoinc = 2\<rparr> \<and>
   fst (delete_video_game_by_id (fst (snd run_added_other)) 1) = Inr () \<and>
   content (snd (delete_video_game_by_id (fst (snd run_added_other)) 1)) =
     Some \<lparr>rows = [\<lparr>row_id = 2, row_name = ''Factorio'', row_rating = SqlReal (Finite 95)\<rparr>], autoinc = 2\<rparr> \<and>
   fst (delete_video_game_by_id (fst (snd run_added_other)) 999999) = Inr () \<and>
   content (snd (delete_video_game_by_id (fst (snd run_added_other)) 999999)) =
     content (fst (snd run_added_other))"
proof -
  have a: "content (fst (snd run_added_other)) =
     Some \<lparr>rows = [\<lparr>row_id = 1, row_name = ''Satisfactory'', row_rating = SqlReal (Finite 90)\<rparr>,
                   \<lparr>row_id = 2, row_name = ''Factorio'', row_rating = SqlReal (Finite 95)\<rparr>], autoinc = 2\<rparr>"
    by code_simp
  from delete_video_game_by_id_effect [OF a, of 1] delete_video_game_by_id_effect [OF a, of 999999]
    a show ?thesis by simp
qed

text \<open>
  C9 as stated fails for an integer outside the signed 64-bit range: on the empty table,
  where no row has the id, the call with \<open>2 ** 63\<close> raises \<open>OverflowError\<close>.
\<close>

theorem delete_video_game_by_id_overflow:
  "stored_rows run_created = [] \<and>
   fst (delete_video_game_by_id run_created (2 ^ 63)) = Inl OverflowError"
  by code_simp

section \<open>The constructor checks nothing\<close>

text \<open>
  C10. The constructor stores whatever identifier and rating it is given, while the
  setter refuses the same identifier when it is not an \<open>int\<close>; so an entity whose
  identifier is not an integer exists.
\<close>

theorem constructor_checks_nothing:
  "id_getter (VideoGameModel_init n r v) = v \<and>
   rating (VideoGameModel_init n r v) = r \<and>
   name (VideoGameModel_init n r v) = n \<and>
   (\<not> isinstance_int v \<longrightarrow> id_setter (VideoGameModel_new n r) v = Inl ValueError) \<and>
   (\<exists>w. \<not> isinstance_int w \<and> id_getter (VideoGameModel_init n r w) = w)"
proof -
  have "\<not> isinstance_int (PyStr ''1'') \<and> id_getter (VideoGameModel_init n r (PyStr ''1'')) = PyStr ''1''"
    by (simp add: id_getter_def VideoGameModel_init_def)
  then have "\<exists>w. \<not> isinstance_int w \<and> id_getter (VideoGameModel_init n r w) = w" by blast
  then show ?thesis
    by (simp add: id_getter_def VideoGameModel_init_def VideoGameModel_new_def id_setter_def)
qed

text \<open>
  The theorem for the identifier \<open>'one'\<close> and the rating \<open>'90'\<close>, both strings.
\<close>

theorem constructor_checks_nothing_witness:
  "\<not> isinstance_int (PyStr ''one'') \<and>
   id_getter (VideoGameModel_init ''Satisfactory'' (PyStr ''90'') (PyStr ''one'')) = PyStr ''one'' \<and>
   rating (VideoGameModel_init ''Satisfactory'' (PyStr ''90'') (PyStr ''one'')) = PyStr ''90'' \<and>
   id_setter (VideoGameModel_new ''Satisfactory'' (PyStr ''90'')) (PyStr ''one'') = Inl ValueError"
  using constructor_checks_nothing [of "''Satisfactory''" "PyStr ''90''" "PyStr ''one''"]
  by simp

end
